theory Spec2Isabelle
  imports Complex_Main "HOL-Library.Sublist"
begin

section \<open>Values and errors\<close>

text \<open>
  The library works on numpy arrays of floating point numbers. Domains are modelled as lists
  of reals and finite sample values as complex numbers: the idealisation of floats by exact
  numbers. Every exception the source can raise on the paths modelled here is a value of
  \<open>error\<close>, and a fallible function returns \<open>error + 'a\<close> with \<open>Inl\<close> the exception.
\<close>

datatype error =
    NotEquidistant      \<comment> \<open>\<open>RuntimeWarning("Given domain is not equidistantly spaced")\<close>\<close>
  | NotCallable         \<comment> \<open>\<open>RuntimeError("function must be callable")\<close>\<close>
  | ParamCountMismatch  \<comment> \<open>\<open>RuntimeError("Number of given parameters does not match ...")\<close>\<close>
  | IndexError          \<comment> \<open>an index out of bounds: \<open>diff[0]\<close>, \<open>self._dom[0]\<close>\<close>
  | TypeError           \<comment> \<open>\<open>'bool' object is not iterable\<close>\<close>
  | ValueError          \<comment> \<open>raised by numpy and scipy on an argument they reject\<close>

section \<open>The class Function\<close>

text \<open>
  A Function is the pair of \<open>_dom\<close> and \<open>_f\<close>. The record is polymorphic in the type of
  the relation's values: the source is duck typed there.
\<close>

record 'v Function =
  dom :: "real list"
  f :: "real \<Rightarrow> 'v"

text \<open>
  The second argument of the constructor: a callable, a Function object (callable too, and
  unwrapped to its relation), or an object that is not callable, such as a list of samples.
\<close>

datatype 'v relation_arg =
    Callable "real \<Rightarrow> 'v"
  | FunctionObj "'v Function"
  | Samples "'v list"

subsection \<open>numpy helpers used by the domain check\<close>

text \<open>\<open>numpy.diff\<close> of a one-dimensional array: the consecutive differences, empty for
  an array of fewer than two elements.\<close>

fun numpy_diff :: "real list \<Rightarrow> real list" where
  "numpy_diff (x # y # xs) = (y - x) # numpy_diff (y # xs)"
| "numpy_diff xs = []"

text \<open>\<open>numpy.isclose(a, b)\<close> with its default tolerances \<open>rtol = 1e-05\<close> and
  \<open>atol = 1e-08\<close>: \<open>|a - b| <= atol + rtol * |b|\<close>.\<close>

definition rtol :: real where
  "rtol = 1 / 100000"

definition atol :: real where
  "atol = 1 / 100000000"

definition isclose :: "real \<Rightarrow> real \<Rightarrow> bool" where
  "isclose a b = (\<bar>a - b\<bar> \<le> atol + rtol * \<bar>b\<bar>)"

text \<open>Indexing an array at 0, as \<open>diff[0]\<close> does: IndexError on an empty array.\<close>

fun index0 :: "'a list \<Rightarrow> error + 'a" where
  "index0 [] = Inl IndexError"
| "index0 (x # xs) = Inr x"

subsection \<open>\<open>Function.is_evenly_spaced_domain\<close>\<close>

text \<open>
  \<^verbatim>\<open>
  diff = numpy.diff(domain)
  if numpy.all(numpy.isclose(diff - diff[0], numpy.zeros(len(diff)))):
      return True
  return False
  \<close>
  The argument of \<open>numpy.isclose\<close> is evaluated first, and with it \<open>diff[0]\<close>.
\<close>

definition is_evenly_spaced_domain :: "real list \<Rightarrow> error + bool" where
  "is_evenly_spaced_domain domain =
     (let diff = numpy_diff domain in
      case index0 diff of
        Inl e \<Rightarrow> Inl e
      | Inr d0 \<Rightarrow> Inr (list_all (\<lambda>d. isclose (d - d0) 0) diff))"

subsection \<open>\<open>Function.__init__\<close>\<close>

text \<open>
  \<^verbatim>\<open>
  if not self.is_evenly_spaced_domain(domain):
      raise RuntimeWarning("Given domain is not equidistantly spaced")
  self._dom = numpy.array(domain)
  if not callable(function_callable):
      raise RuntimeError("function must be callable")
  if isinstance(function_callable, Function):
      function_callable = function_callable.get_function()
  self._f = function_callable
  \<close>
  \<open>callable\<close> holds of a callable and of a Function object and fails on samples.
\<close>

definition Function_init :: "real list \<Rightarrow> 'v relation_arg \<Rightarrow> error + 'v Function" where
  "Function_init domain function_callable =
     (case is_evenly_spaced_domain domain of
        Inl e \<Rightarrow> Inl e
      | Inr ok \<Rightarrow>
          if \<not> ok then Inl NotEquidistant
          else (case function_callable of
                  Samples ys \<Rightarrow> Inl NotCallable
                | FunctionObj g \<Rightarrow> Inr \<lparr>dom = domain, f = f g\<rparr>
                | Callable h \<Rightarrow> Inr \<lparr>dom = domain, f = h\<rparr>))"

subsection \<open>\<open>Function.eval\<close> and \<open>Function.get_dx\<close>\<close>

text \<open>\<open>eval\<close> is \<open>self(self.get_domain())\<close>: the relation applied to the whole domain
  array, that is to each of its points.\<close>

definition Function_eval :: "'v Function \<Rightarrow> 'v list" where
  "Function_eval self = map (f self) (dom self)"

text \<open>
  \<^verbatim>\<open>
  if len(domain) < 2:
      return 0
  return domain[1] - domain[0]
  \<close>
\<close>

fun get_dx :: "real list \<Rightarrow> real" where
  "get_dx (x0 # x1 # xs) = x1 - x0"
| "get_dx xs = 0"

subsection \<open>The binary operators\<close>

text \<open>
  The right operand of an operator is any Python object. \<open>_is_number\<close> accepts an
  \<open>int\<close> (and so a \<open>bool\<close>, a subclass of \<open>int\<close>), a \<open>float\<close> and a
  \<open>complex\<close>; \<open>numpy.float\<close> and \<open>numpy.complex\<close> are numpy's aliases of the
  builtin types.
\<close>

datatype operand =
    OFunction "complex Function"
  | OInt int
  | OBool bool
  | OFloat real
  | OComplex complex
  | OStr string
  | OList "real list"
  | ONone

fun is_Function :: "operand \<Rightarrow> bool" where
  "is_Function (OFunction g) = True"
| "is_Function other = False"

fun is_number :: "operand \<Rightarrow> bool" where
  "is_number (OInt n) = True"
| "is_number (OBool b) = True"
| "is_number (OFloat r) = True"
| "is_number (OComplex c) = True"
| "is_number other = False"

text \<open>The value a number takes in arithmetic with a complex sample.\<close>

fun number_value :: "operand \<Rightarrow> complex" where
  "number_value (OInt n) = of_int n"
| "number_value (OBool b) = of_bool b"
| "number_value (OFloat r) = of_real r"
| "number_value (OComplex c) = c"
| "number_value other = 0"

text \<open>
  The five operator methods have one shape, here for \<open>__add__\<close>:
  \<^verbatim>\<open>
  if isinstance(other, Function):
      return Function(self._dom, lambda x: self._f(x) + other.get_function()(x))
  if self._is_number(other):
      return Function(self._dom, lambda x: self._f(x) + other)
  \<close>
  A method that reaches its end returns \<open>None\<close>: the result is an optional Function.
  \<open>binary_operator\<close> is that shape with the arithmetic operation \<open>opr\<close> left open.
\<close>

definition binary_operator ::
  "(complex \<Rightarrow> complex \<Rightarrow> complex) \<Rightarrow> complex Function \<Rightarrow> operand \<Rightarrow>
     error + complex Function option" where
  "binary_operator opr self other =
     (case other of
        OFunction g \<Rightarrow>
          map_sum id Some (Function_init (dom self) (Callable (\<lambda>x. opr (f self x) (f g x))))
      | _ \<Rightarrow>
          if is_number other
          then map_sum id Some
                 (Function_init (dom self) (Callable (\<lambda>x. opr (f self x) (number_value other))))
          else Inr None)"

definition Function_add :: "complex Function \<Rightarrow> operand \<Rightarrow> error + complex Function option" where
  "Function_add = binary_operator (\<lambda>a b. a + b)"

definition Function_sub :: "complex Function \<Rightarrow> operand \<Rightarrow> error + complex Function option" where
  "Function_sub = binary_operator (\<lambda>a b. a - b)"

definition Function_mul :: "complex Function \<Rightarrow> operand \<Rightarrow> error + complex Function option" where
  "Function_mul = binary_operator (\<lambda>a b. a * b)"

definition Function_truediv :: "complex Function \<Rightarrow> operand \<Rightarrow> error + complex Function option" where
  "Function_truediv = binary_operator (\<lambda>a b. a / b)"

text \<open>Python's \<open>**\<close> on complex numbers is not a HOL operation; \<open>__pow__\<close> takes it as the
  parameter \<open>pw\<close>.\<close>

definition Function_pow ::
  "(complex \<Rightarrow> complex \<Rightarrow> complex) \<Rightarrow> complex Function \<Rightarrow> operand \<Rightarrow>
     error + complex Function option" where
  "Function_pow pw = binary_operator pw"

subsection \<open>\<open>Function.find_zeros\<close>\<close>

text \<open>
  \<^verbatim>\<open>
  f0 = self._f(self._dom[0])
  roots = []
  for el in self._dom:
      fn = self._f(el)
      if (f0.real * fn.real) < 0:
          roots.append(el)
          f0 = fn
  return roots
  \<close>
  The loop is a recursion over the domain with the reference sample \<open>f0\<close> as its state; the
  roots come out in the order they are appended.
\<close>

fun find_zeros_loop :: "(real \<Rightarrow> complex) \<Rightarrow> complex \<Rightarrow> real list \<Rightarrow> real list" where
  "find_zeros_loop g f0 [] = []"
| "find_zeros_loop g f0 (el # els) =
     (let fn = g el in
      if Re f0 * Re fn < 0 then el # find_zeros_loop g fn els
      else find_zeros_loop g f0 els)"

definition Function_find_zeros :: "complex Function \<Rightarrow> error + real list" where
  "Function_find_zeros self =
     (case index0 (dom self) of
        Inl e \<Rightarrow> Inl e
      | Inr d0 \<Rightarrow> Inr (find_zeros_loop (f self) (f self d0) (dom self)))"

text \<open>\<open>numpy.linspace(start, stop, num)\<close> for \<open>num \<ge> 2\<close>: \<open>num\<close> points from
  \<open>start\<close> to \<open>stop\<close> in steps of \<open>(stop - start) / (num - 1)\<close>.\<close>

definition linspace :: "real \<Rightarrow> real \<Rightarrow> nat \<Rightarrow> real list" where
  "linspace start stop num =
     map (\<lambda>i. start + real i * ((stop - start) / real (num - 1))) [0..<num]"

text \<open>A list of real samples changes sign from each element to the next, starting from the
  reference \<open>r\<close>.\<close>

fun alternating :: "real \<Rightarrow> real list \<Rightarrow> bool" where
  "alternating r [] = True"
| "alternating r (y # ys) = (r * y < 0 \<and> alternating y ys)"

section \<open>Relation reconstruction\<close>

subsection \<open>Floats with not-a-number\<close>

text \<open>
  A reconstructed relation can return not-a-number. A float is a real or NaN, a complex
  float is a pair of floats, and the arithmetic propagates NaN componentwise as the
  platform's complex arithmetic does. Infinities are left out.
\<close>

datatype fl = Fin real | NaN

fun fl_add :: "fl \<Rightarrow> fl \<Rightarrow> fl" where
  "fl_add (Fin a) (Fin b) = Fin (a + b)"
| "fl_add a b = NaN"

fun fl_sub :: "fl \<Rightarrow> fl \<Rightarrow> fl" where
  "fl_sub (Fin a) (Fin b) = Fin (a - b)"
| "fl_sub a b = NaN"

fun fl_mul :: "fl \<Rightarrow> fl \<Rightarrow> fl" where
  "fl_mul (Fin a) (Fin b) = Fin (a * b)"
| "fl_mul a b = NaN"

datatype cfloat = Cf (real_part: fl) (imag_part: fl)

fun cf_add :: "cfloat \<Rightarrow> cfloat \<Rightarrow> cfloat" where
  "cf_add (Cf a b) (Cf c d) = Cf (fl_add a c) (fl_add b d)"

fun cf_mul :: "cfloat \<Rightarrow> cfloat \<Rightarrow> cfloat" where
  "cf_mul (Cf a b) (Cf c d) =
     Cf (fl_sub (fl_mul a c) (fl_mul b d)) (fl_add (fl_mul a d) (fl_mul b c))"

text \<open>A float in complex arithmetic is promoted to a complex with imaginary part 0.\<close>

definition cf_of_float :: "fl \<Rightarrow> cfloat" where
  "cf_of_float r = Cf r (Fin 0)"

text \<open>The literal \<open>1j\<close>.\<close>

definition imag_unit :: cfloat where
  "imag_unit = Cf (Fin 0) (Fin 1)"

text \<open>Division of a complex float by a nonzero float, as in \<open>/ 2.0\<close>.\<close>

fun cf_div_float :: "cfloat \<Rightarrow> real \<Rightarrow> cfloat" where
  "cf_div_float (Cf (Fin a) (Fin b)) r = Cf (Fin (a / r)) (Fin (b / r))"
| "cf_div_float v r = Cf NaN NaN"

text \<open>A list comprehension over calls that may raise stops at the first exception.\<close>

fun sequence :: "(error + 'a) list \<Rightarrow> error + 'a list" where
  "sequence [] = Inr []"
| "sequence (Inl e # rs) = Inl e"
| "sequence (Inr v # rs) = (case sequence rs of Inl e \<Rightarrow> Inl e | Inr vs \<Rightarrow> Inr (v # vs))"

subsection \<open>The interpolation backend\<close>

text \<open>
  Modelled from the spec: \<open>scipy.interpolate.interp1d\<close> is a library class and no source of
  the repository. The spec gives its contract as the code uses it: a reconstructed relation
  is "valid continuously over the domain's span and falling back to a boundary policy (zero
  or not-a-number) outside it". An \<open>interp1d\<close> object keeps the grid, the pair of fill
  values for below and above the grid, the flag \<open>bounds_error\<close> and the interpolant it
  fitted. Fitting is the parameter \<open>fit\<close>, from the interpolation kind, the grid and the
  samples to the interpolant or to the exception the library raises; a call outside
  \<open>[min x, max x]\<close> raises ValueError when \<open>bounds_error\<close> is set and returns the fill
  value otherwise; a call inside returns the interpolant's value.
\<close>

type_synonym fit = "string \<Rightarrow> real list \<Rightarrow> fl list \<Rightarrow> error + (real \<Rightarrow> fl)"

record interp1d =
  grid :: "real list"
  fill_value :: "fl \<times> fl"
  bounds_error :: bool
  interpolant :: "real \<Rightarrow> fl"

definition interp1d_init ::
  "fit \<Rightarrow> real list \<Rightarrow> fl list \<Rightarrow> fl \<times> fl \<Rightarrow> bool \<Rightarrow> string \<Rightarrow> error + interp1d" where
  "interp1d_init fit x y fill berr kind =
     (case fit kind x y of
        Inl e \<Rightarrow> Inl e
      | Inr p \<Rightarrow> Inr \<lparr>grid = x, fill_value = fill, bounds_error = berr, interpolant = p\<rparr>)"

definition interp1d_call :: "interp1d \<Rightarrow> real \<Rightarrow> error + fl" where
  "interp1d_call self x_new =
     (if x_new < Min (set (grid self)) then
        (if bounds_error self then Inl ValueError else Inr (fst (fill_value self)))
      else if Max (set (grid self)) < x_new then
        (if bounds_error self then Inl ValueError else Inr (snd (fill_value self)))
      else Inr (interpolant self x_new))"

subsection \<open>The process-wide interpolation kind\<close>

text \<open>
  \<^verbatim>\<open>
  FUNCTION_INTERPOLATION_TYPE = 'linear'

  def set_interpolation_type(interpolation_type):
      global FUNCTION_INTERPOLATION_TYPE
      previous_type = FUNCTION_INTERPOLATION_TYPE
      FUNCTION_INTERPOLATION_TYPE = interpolation_type
      return previous_type
  \<close>
  The module's global is a record passed explicitly; the setter returns the previous kind
  together with the updated globals.
\<close>

record globals =
  FUNCTION_INTERPOLATION_TYPE :: string

definition initial_globals :: globals where
  "initial_globals = \<lparr>FUNCTION_INTERPOLATION_TYPE = ''linear''\<rparr>"

definition set_interpolation_type :: "string \<Rightarrow> globals \<Rightarrow> string \<times> globals" where
  "set_interpolation_type interpolation_type g =
     (let previous_type = FUNCTION_INTERPOLATION_TYPE g in
      (previous_type, g\<lparr>FUNCTION_INTERPOLATION_TYPE := interpolation_type\<rparr>))"

subsection \<open>\<open>to_function\<close>\<close>

text \<open>
  \<^verbatim>\<open>
  def to_function(x_space, feval, interpolation=None, to_zero=True):
      if interpolation is None:
          global FUNCTION_INTERPOLATION_TYPE
          interpolation = FUNCTION_INTERPOLATION_TYPE
      if callable(feval):
          feval = numpy.array([feval(x) for x in x_space])
      if len(x_space) == 0:
          return lambda x: 0
      feval = numpy.array(feval)
      if to_zero:
          fill = (0, 0)
      else:
          fill = numpy.nan
      real = scipy.interpolate.interp1d(x_space, feval.real, fill_value=fill,
                                        bounds_error=False, kind=interpolation)
      imag = scipy.interpolate.interp1d(x_space, feval.imag, fill_value=fill,
                                        bounds_error=False, kind=interpolation)
      return lambda x: real(x) + 1j * imag(x)
  \<close>
  \<open>feval\<close> is a callable, which may raise, or the samples. A scalar fill value stands for
  both sides. The relation returned may raise where a call of \<open>interp1d\<close> does. The
  two interpolation objects \<open>real\<close> and \<open>imag\<close> are \<open>real_ip\<close> and \<open>imag_ip\<close>.
\<close>

datatype feval_arg =
    FCallable "real \<Rightarrow> error + cfloat"
  | FSamples "cfloat list"

type_synonym relation = "real \<Rightarrow> error + cfloat"

definition to_function ::
  "globals \<Rightarrow> fit \<Rightarrow> real list \<Rightarrow> feval_arg \<Rightarrow> string option \<Rightarrow> bool \<Rightarrow> error + relation" where
  "to_function g fit x_space feval interpolation to_zero =
     (let interpolation =
            (case interpolation of None \<Rightarrow> FUNCTION_INTERPOLATION_TYPE g | Some k \<Rightarrow> k) in
      case (case feval of FCallable h \<Rightarrow> sequence (map h x_space) | FSamples ys \<Rightarrow> Inr ys) of
        Inl e \<Rightarrow> Inl e
      | Inr feval \<Rightarrow>
          if length x_space = 0 then Inr (\<lambda>x. Inr (Cf (Fin 0) (Fin 0)))
          else
            let fill = (if to_zero then (Fin 0, Fin 0) else (NaN, NaN)) in
            case interp1d_init fit x_space (map real_part feval) fill False interpolation of
              Inl e \<Rightarrow> Inl e
            | Inr real_ip \<Rightarrow>
                (case interp1d_init fit x_space (map imag_part feval) fill False interpolation of
                   Inl e \<Rightarrow> Inl e
                 | Inr imag_ip \<Rightarrow>
                     Inr (\<lambda>x. case interp1d_call real_ip x of
                                Inl e \<Rightarrow> Inl e
                              | Inr r \<Rightarrow>
                                  (case interp1d_call imag_ip x of
                                     Inl e \<Rightarrow> Inl e
                                   | Inr i \<Rightarrow>
                                       Inr (cf_add (cf_of_float r)
                                              (cf_mul imag_unit (cf_of_float i)))))))"

subsection \<open>\<open>Function.reinterpolate\<close>, \<open>remesh\<close> and \<open>vremesh\<close>\<close>

text \<open>\<open>self._f = to_function(self._dom, self._f)\<close>: the object with its relation replaced.\<close>

definition Function_reinterpolate ::
  "globals \<Rightarrow> fit \<Rightarrow> (error + cfloat) Function \<Rightarrow> error + (error + cfloat) Function" where
  "Function_reinterpolate g fit self =
     (case to_function g fit (dom self) (FCallable (f self)) None True of
        Inl e \<Rightarrow> Inl e
      | Inr r \<Rightarrow> Inr \<lparr>dom = dom self, f = r\<rparr>)"

text \<open>\<open>return Function(new_mesh, to_function(new_mesh, self._f(new_mesh)))\<close>\<close>

definition Function_remesh ::
  "globals \<Rightarrow> fit \<Rightarrow> (error + cfloat) Function \<Rightarrow> real list \<Rightarrow>
     error + (error + cfloat) Function" where
  "Function_remesh g fit self new_mesh =
     (case sequence (map (f self) new_mesh) of
        Inl e \<Rightarrow> Inl e
      | Inr ys \<Rightarrow>
          (case to_function g fit new_mesh (FSamples ys) None True of
             Inl e \<Rightarrow> Inl e
           | Inr r \<Rightarrow> Function_init new_mesh (Callable r)))"

text \<open>
  \<open>return self.remesh(vslice(self.get_domain(), *selectors, dstart=dstart, dstop=dstop))\<close>.
  \<open>skipi.util.vslice\<close> is not among the sources; it is the parameter \<open>vslice\<close>, from the
  domain, the selectors (pairs of optional bounds) and the two paddings to the sliced
  domain.
\<close>

type_synonym vslice =
  "real list \<Rightarrow> (real option \<times> real option) list \<Rightarrow> int \<Rightarrow> int \<Rightarrow> error + real list"

definition Function_vremesh ::
  "globals \<Rightarrow> fit \<Rightarrow> vslice \<Rightarrow> (error + cfloat) Function \<Rightarrow>
     (real option \<times> real option) list \<Rightarrow> int \<Rightarrow> int \<Rightarrow> error + (error + cfloat) Function" where
  "Function_vremesh g fit vslice self selectors dstart dstop =
     (case vslice (dom self) selectors dstart dstop of
        Inl e \<Rightarrow> Inl e
      | Inr new_mesh \<Rightarrow> Function_remesh g fit self new_mesh)"

section \<open>\<open>Integral.integrate\<close>\<close>

text \<open>
  The Python objects of the guard \<open>any(numpy.array([x0, x1]) is None)\<close>: the bounds are
  \<open>None\<close> or numbers, \<open>numpy.array\<close> makes an array object of them, \<open>is None\<close> compares
  the identity of that object with \<open>None\<close> and gives a \<open>bool\<close>, and the builtin \<open>any\<close>
  iterates over its argument, raising TypeError when the argument is not iterable.
\<close>

datatype pyobj =
    NoneObj
  | BoolObj bool
  | NdArray "real option list"

fun is_None :: "pyobj \<Rightarrow> bool" where
  "is_None NoneObj = True"
| "is_None v = False"

text \<open>The truth value of an array element: \<open>None\<close> is false, a number is true unless 0.\<close>

fun truth :: "real option \<Rightarrow> bool" where
  "truth None = False"
| "truth (Some r) = (r \<noteq> 0)"

fun py_any :: "pyobj \<Rightarrow> error + bool" where
  "py_any (NdArray xs) = Inr (list_ex truth xs)"
| "py_any (BoolObj b) = Inl TypeError"
| "py_any NoneObj = Inl TypeError"

text \<open>\<open>scipy.integrate.trapz(y, dx=dx)\<close> is \<open>(dx * (y[1:] + y[:-1]) / 2.0).sum()\<close>.\<close>

fun trapz_terms :: "cfloat list \<Rightarrow> real \<Rightarrow> cfloat list" where
  "trapz_terms (y0 # y1 # ys) dx =
     cf_div_float (cf_mul (cf_of_float (Fin dx)) (cf_add y1 y0)) 2 # trapz_terms (y1 # ys) dx"
| "trapz_terms ys dx = []"

definition trapz :: "cfloat list \<Rightarrow> real \<Rightarrow> cfloat" where
  "trapz y dx = foldl cf_add (Cf (Fin 0) (Fin 0)) (trapz_terms y dx)"

text \<open>
  \<^verbatim>\<open>
  if not any(numpy.array([x0, x1]) is None):
      fun = fun.vremesh((x0, x1))
  dx = cls.get_dx(fun.get_domain())
  return scipy.integrate.trapz(fun.eval(), dx=dx)
  \<close>
\<close>

definition Integral_integrate ::
  "globals \<Rightarrow> fit \<Rightarrow> vslice \<Rightarrow> (error + cfloat) Function \<Rightarrow> real option \<Rightarrow> real option \<Rightarrow>
     error + cfloat" where
  "Integral_integrate g fit vslice fun x0 x1 =
     (case py_any (BoolObj (is_None (NdArray [x0, x1]))) of
        Inl e \<Rightarrow> Inl e
      | Inr a \<Rightarrow>
          (case (if \<not> a then Function_vremesh g fit vslice fun [(x0, x1)] 0 0 else Inr fun) of
             Inl e \<Rightarrow> Inl e
           | Inr fun \<Rightarrow>
               (let dx = get_dx (dom fun) in
                case sequence (Function_eval fun) of
                  Inl e \<Rightarrow> Inl e
                | Inr y \<Rightarrow> Inr (trapz y dx))))"

section \<open>The class ParametrizedFunction\<close>

text \<open>
  The \<open>domain\<close> argument is a grid, a factory from the parameters to a grid, or the
  function object that line 45 creates:
  \<^verbatim>\<open>
  if not callable(domain):
      if not isinstance(domain, numpy.ndarray):
          domain = numpy.array(domain)
      domain = lambda x: domain
  \<close>
  The body of that lambda is the variable \<open>domain\<close> of \<open>__init__\<close>, which Python looks up
  when the lambda is called, not when it is created. A call of the lambda returns what the
  variable holds then.
\<close>

datatype 'p domain_arg =
    Grid "real list"
  | DomainFactory "'p list \<Rightarrow> real list"
  | DomainLambda

fun callable_domain :: "'p domain_arg \<Rightarrow> bool" where
  "callable_domain (Grid xs) = False"
| "callable_domain (DomainFactory h) = True"
| "callable_domain DomainLambda = True"

text \<open>Calling a domain object with the parameters, where \<open>domain_var\<close> is the value of the
  variable \<open>domain\<close> at the time of the call.\<close>

fun call_domain :: "'p domain_arg \<Rightarrow> 'p domain_arg \<Rightarrow> 'p list \<Rightarrow> error + 'p domain_arg" where
  "call_domain domain_var (DomainFactory h) p = Inr (Grid (h p))"
| "call_domain domain_var DomainLambda p = Inr domain_var"
| "call_domain domain_var (Grid xs) p = Inl TypeError"

datatype ('p, 'v) relation_factory =
    RelationFactory "'p list \<Rightarrow> 'v relation_arg"
  | NoFactory

text \<open>\<open>Function.__init__\<close> on a domain object: \<open>numpy.diff\<close> raises ValueError on an
  argument with no dimension, which a function object is.\<close>

definition Function_init_obj :: "'p domain_arg \<Rightarrow> 'v relation_arg \<Rightarrow> error + 'v Function" where
  "Function_init_obj domain function_callable =
     (case domain of
        Grid xs \<Rightarrow> Function_init xs function_callable
      | _ \<Rightarrow> Inl ValueError)"

record ('p, 'v) ParametrizedFunction =
  base :: "'v Function"
  dom_factory :: "'p domain_arg"
  f_factory :: "('p, 'v) relation_factory"
  param_names :: "string list"
  params :: "'p list"

text \<open>
  \<^verbatim>\<open>
  self._dom_factory = domain
  if not callable(parametrized_function_callable):
      raise RuntimeError("function must be callable")
  self._dom_factory = domain
  self._f_factory = parametrized_function_callable
  if not len(parameter_names) == len(parameters):
      raise RuntimeError("Number of given parameters does not match the expected number")
  self._param_names = parameter_names
  self._params = parameters
  dom = self._dom_factory(parameters)
  f = self._f_factory(parameters)
  super(ParametrizedFunction, self).__init__(dom, f)
  \<close>
\<close>

definition ParametrizedFunction_init ::
  "'p domain_arg \<Rightarrow> ('p, 'v) relation_factory \<Rightarrow> string list \<Rightarrow> 'p list \<Rightarrow>
     error + ('p, 'v) ParametrizedFunction" where
  "ParametrizedFunction_init domain parametrized_function_callable parameter_names parameters =
     (let domain = (if \<not> callable_domain domain then DomainLambda else domain) in
      case parametrized_function_callable of
        NoFactory \<Rightarrow> Inl NotCallable
      | RelationFactory ff \<Rightarrow>
          if \<not> length parameter_names = length parameters then Inl ParamCountMismatch
          else
            (case call_domain domain domain parameters of
               Inl e \<Rightarrow> Inl e
             | Inr dom_v \<Rightarrow>
                 (case Function_init_obj dom_v (ff parameters) of
                    Inl e \<Rightarrow> Inl e
                  | Inr F \<Rightarrow>
                      Inr \<lparr>base = F, dom_factory = domain,
                           f_factory = parametrized_function_callable,
                           param_names = parameter_names, params = parameters\<rparr>)))"

section \<open>Specification-side notions and a sample backend\<close>

text \<open>
  The sign-change scan in the spec's words: the points that follow a change of sign between
  two successive samples (real parts).
\<close>

fun successive_flips :: "(real \<Rightarrow> complex) \<Rightarrow> real list \<Rightarrow> real list" where
  "successive_flips g (a # b # xs) =
     (if Re (g a) * Re (g b) < 0 then b # successive_flips g (b # xs)
      else successive_flips g (b # xs))"
| "successive_flips g xs = []"

text \<open>
  Two interpolation kinds on an increasing grid, for evaluating reconstructions on concrete
  inputs: piecewise linear, and the value of the previous grid point.
\<close>

fun linear_interp :: "real list \<Rightarrow> fl list \<Rightarrow> real \<Rightarrow> fl" where
  "linear_interp (x0 # x1 # xs) (y0 # y1 # ys) x =
     (if x \<le> x1 then fl_add y0 (fl_mul (Fin ((x - x0) / (x1 - x0))) (fl_sub y1 y0))
      else linear_interp (x1 # xs) (y1 # ys) x)"
| "linear_interp xs ys x = NaN"

fun previous_interp :: "real list \<Rightarrow> fl list \<Rightarrow> real \<Rightarrow> fl" where
  "previous_interp (x0 # x1 # xs) (y0 # y1 # ys) x =
     (if x < x1 then y0 else previous_interp (x1 # xs) (y1 # ys) x)"
| "previous_interp [x0] [y0] x = y0"
| "previous_interp xs ys x = NaN"

definition sample_fit :: fit where
  "sample_fit kind x y =
     (if length x = length y then
        (if 2 \<le> length x then
           (if kind = ''linear'' then Inr (linear_interp x y)
            else if kind = ''previous'' then Inr (previous_interp x y)
            else Inl ValueError)
         else Inl ValueError)
      else Inl ValueError)"

text \<open>The value at \<open>x\<close> of a Function after \<open>reinterpolate\<close>.\<close>

definition reinterpolated_at ::
  "globals \<Rightarrow> fit \<Rightarrow> (error + cfloat) Function \<Rightarrow> real \<Rightarrow> error + cfloat" where
  "reinterpolated_at g fit self x =
     (case Function_reinterpolate g fit self of
        Inl e \<Rightarrow> Inl e
      | Inr self' \<Rightarrow> f self' x)"

section \<open>Auxiliary facts\<close>

subsection \<open>The scan of \<open>find_zeros\<close>\<close>

lemma loop_zero_ref: "Re r = 0 \<Longrightarrow> find_zeros_loop g r xs = []"
  by (induction xs) simp_all

lemma loop_filter:
  "find_zeros_loop g r (filter (\<lambda>x. Re (g x) \<noteq> 0) xs) = find_zeros_loop g r xs"
  by (induction xs arbitrary: r) (simp_all add: Let_def)

lemma same_sign_flip:
  fixes r a x :: real
  assumes "0 < r * a"
  shows "r * x < 0 \<longleftrightarrow> a * x < 0"
  using assms by (auto simp add: zero_less_mult_iff mult_less_0_iff)

lemma loop_successive:
  "0 < Re r * Re (g a) \<Longrightarrow> \<forall>x\<in>set xs. Re (g x) \<noteq> 0 \<Longrightarrow>
     find_zeros_loop g r xs = successive_flips g (a # xs)"
proof (induction xs arbitrary: r a)
  case Nil
  then show ?case by simp
next
  case (Cons x xs)
  have nz: "Re (g x) \<noteq> 0" and rest: "\<forall>y\<in>set xs. Re (g y) \<noteq> 0"
    using Cons.prems(2) by simp_all
  have iff: "Re r * Re (g x) < 0 \<longleftrightarrow> Re (g a) * Re (g x) < 0"
    using Cons.prems(1) by (rule same_sign_flip)
  show ?case
  proof (cases "Re r * Re (g x) < 0")
    case True
    have "0 < Re (g x) * Re (g x)"
      using nz by (auto simp add: zero_less_mult_iff neq_iff)
    from Cons.IH [OF this rest] True iff show ?thesis by (simp add: Let_def)
  next
    case False
    then have "0 < Re r * Re (g x)"
      using nz Cons.prems(1) by (auto simp add: zero_less_mult_iff not_less mult_less_0_iff)
    from Cons.IH [OF this rest] False iff show ?thesis by (simp add: Let_def)
  qed
qed

lemma loop_char:
  "find_zeros_loop g (g d0) (d0 # ds) =
     (if Re (g d0) = 0 then []
      else successive_flips g (filter (\<lambda>x. Re (g x) \<noteq> 0) (d0 # ds)))"
proof (cases "Re (g d0) = 0")
  case True
  then show ?thesis by (simp add: loop_zero_ref)
next
  case False
  then have pos: "0 < Re (g d0) * Re (g d0)"
    by (auto simp add: zero_less_mult_iff neq_iff)
  have "find_zeros_loop g (g d0) (d0 # ds) = find_zeros_loop g (g d0) ds"
    using pos by (simp add: Let_def not_less [symmetric] less_imp_le)
  also have "\<dots> = find_zeros_loop g (g d0) (filter (\<lambda>x. Re (g x) \<noteq> 0) ds)"
    by (simp add: loop_filter)
  also have "\<dots> = successive_flips g (d0 # filter (\<lambda>x. Re (g x) \<noteq> 0) ds)"
    by (rule loop_successive [where r = "g d0" and g = g and a = d0, OF pos]) simp
  finally show ?thesis using False by simp
qed

lemma loop_subseq: "subseq (find_zeros_loop g r xs) xs"
  by (induction xs arbitrary: r) (auto simp add: Let_def)

lemma loop_alternating:
  "alternating (Re r) (map (\<lambda>x. Re (g x)) (find_zeros_loop g r xs))"
  by (induction xs arbitrary: r) (simp_all add: Let_def)

lemma loop_no_flip_append:
  "\<forall>x\<in>set xs. \<not> Re r * Re (g x) < 0 \<Longrightarrow>
     find_zeros_loop g r (xs @ ys) = find_zeros_loop g r ys"
  by (induction xs) (simp_all add: Let_def)

lemma loop_no_flip:
  "\<forall>x\<in>set xs. \<not> Re r * Re (g x) < 0 \<Longrightarrow> find_zeros_loop g r xs = []"
  by (induction xs) (simp_all add: Let_def)

subsection \<open>Grids of \<open>linspace\<close>\<close>

lemma numpy_diff_progression:
  "numpy_diff (map (\<lambda>i. a + real i * s) [m..<m + k]) = replicate (k - 1) s"
proof (induction k arbitrary: m)
  case 0
  then show ?case by simp
next
  case (Suc k)
  show ?case
  proof (cases k)
    case 0
    then show ?thesis by simp
  next
    case (Suc j)
    have "[m..<m + Suc k] = m # Suc m # [Suc (Suc m)..<Suc m + k]"
      using Suc by (simp add: upt_conv_Cons)
    moreover have "[Suc m..<Suc m + k] = Suc m # [Suc (Suc m)..<Suc m + k]"
      using Suc by (simp add: upt_conv_Cons)
    ultimately have "numpy_diff (map (\<lambda>i. a + real i * s) [m..<m + Suc k]) =
        s # numpy_diff (map (\<lambda>i. a + real i * s) [Suc m..<Suc m + k])"
      by (simp add: algebra_simps)
    then show ?thesis using Suc.IH [of "Suc m"] Suc by simp
  qed
qed

lemma isclose_zero: "isclose 0 0"
  by (simp add: isclose_def atol_def rtol_def)

lemma linspace_evenly_spaced:
  assumes "2 \<le> num"
  shows "is_evenly_spaced_domain (linspace start stop num) = Inr True"
proof -
  obtain j where j: "num - Suc 0 = Suc j"
    using assms by (cases "num - Suc 0") simp_all
  have "numpy_diff (linspace start stop num) =
          replicate (num - 1) ((stop - start) / real (num - 1))"
    using numpy_diff_progression [of start "(stop - start) / real (num - 1)" 0 num]
    by (simp add: linspace_def)
  then show ?thesis
    by (simp add: is_evenly_spaced_domain_def Let_def j isclose_zero list_all_iff)
qed

lemma upt_101: "[0..<101] = [0..<51] @ 51 # [52..<101]"
proof -
  have "[0..<101] = [0..<51] @ [51..<101]"
    using upt_add_eq_append [of 0 51 50] by simp
  moreover have "[51..<101] = 51 # [52..<101]"
    by (subst upt_conv_Cons) simp_all
  ultimately show ?thesis by simp
qed

lemma find_zeros_loop_linspace:
  "find_zeros_loop complex_of_real (complex_of_real (- 1)) (linspace (- 1) 1 101) = [1 / 50]"
proof -
  let ?h = "\<lambda>i. - 1 + real i * ((1 - (- 1)) / real (101 - 1))"
  have split: "linspace (- 1) 1 101 = map ?h [0..<51] @ ?h 51 # map ?h [52..<101]"
    unfolding linspace_def by (subst upt_101) simp
  have low: "\<forall>x\<in>set (map ?h [0..<51]).
               \<not> Re (complex_of_real (- 1)) * Re (complex_of_real x) < 0"
    by auto
  have mid: "?h 51 = 1 / 50" by simp
  have high: "\<forall>x\<in>set (map ?h [52..<101]).
                \<not> Re (complex_of_real (1 / 50)) * Re (complex_of_real x) < 0"
    by (auto simp add: not_less)
  have "find_zeros_loop complex_of_real (complex_of_real (- 1)) (linspace (- 1) 1 101) =
        find_zeros_loop complex_of_real (complex_of_real (- 1)) (?h 51 # map ?h [52..<101])"
    unfolding split by (rule loop_no_flip_append [OF low])
  also have "\<dots> = (1 / 50) #
      find_zeros_loop complex_of_real (complex_of_real (1 / 50)) (map ?h [52..<101])"
    unfolding mid by (simp add: Let_def)
  also have "\<dots> = [1 / 50]"
    using loop_no_flip [OF high] by simp
  finally show ?thesis .
qed

lemma index0_linspace: "0 < num \<Longrightarrow> index0 (linspace start stop num) = Inr start"
  using upt_conv_Cons [of 0 num] by (simp add: linspace_def)

subsection \<open>What the scan computes\<close>

text \<open>
  On a non-empty domain \<open>find_zeros\<close> returns a subsequence of the domain at which the
  real parts of the samples alternate in sign, starting from the first sample. When the
  first sample has real part zero the reference sample never changes and no root is
  returned; otherwise the roots are the points after the sign flips between successive
  samples, the samples with real part zero skipped. On \<open>linspace(-1, 1, 101)\<close> with the
  relation \<open>lambda x: x\<close> the result is the single point \<open>1/50\<close>.
\<close>

lemma find_zeros_scan_characterisation:
  "(dom self \<noteq> [] \<longrightarrow>
      (\<exists>roots. Function_find_zeros self = Inr roots \<and>
         subseq roots (dom self) \<and>
         alternating (Re (f self (hd (dom self)))) (map (\<lambda>x. Re (f self x)) roots) \<and>
         roots = (if Re (f self (hd (dom self))) = 0 then []
                  else successive_flips (f self)
                         (filter (\<lambda>x. Re (f self x) \<noteq> 0) (dom self))))) \<and>
   Function_init (linspace (- 1) 1 101) (Callable complex_of_real) =
     Inr \<lparr>dom = linspace (- 1) 1 101, f = complex_of_real\<rparr> \<and>
   Function_find_zeros \<lparr>dom = linspace (- 1) 1 101, f = complex_of_real\<rparr> = Inr [1 / 50]"
proof -
  have general: "dom self \<noteq> [] \<longrightarrow>
      (\<exists>roots. Function_find_zeros self = Inr roots \<and>
         subseq roots (dom self) \<and>
         alternating (Re (f self (hd (dom self)))) (map (\<lambda>x. Re (f self x)) roots) \<and>
         roots = (if Re (f self (hd (dom self))) = 0 then []
                  else successive_flips (f self)
                         (filter (\<lambda>x. Re (f self x) \<noteq> 0) (dom self))))"
  proof
    assume "dom self \<noteq> []"
    then obtain d0 ds where d: "dom self = d0 # ds" by (cases "dom self") simp_all
    have run: "Function_find_zeros self = Inr (find_zeros_loop (f self) (f self d0) (d0 # ds))"
      by (simp add: Function_find_zeros_def d)
    have sub: "subseq (find_zeros_loop (f self) (f self d0) (d0 # ds)) (d0 # ds)"
      by (rule loop_subseq)
    have alt: "alternating (Re (f self d0))
        (map (\<lambda>x. Re (f self x)) (find_zeros_loop (f self) (f self d0) (d0 # ds)))"
      by (rule loop_alternating)
    have char: "find_zeros_loop (f self) (f self d0) (d0 # ds) =
        (if Re (f self d0) = 0 then []
         else successive_flips (f self) (filter (\<lambda>x. Re (f self x) \<noteq> 0) (d0 # ds)))"
      by (rule loop_char)
    from run sub alt char show "\<exists>roots. Function_find_zeros self = Inr roots \<and>
         subseq roots (dom self) \<and>
         alternating (Re (f self (hd (dom self)))) (map (\<lambda>x. Re (f self x)) roots) \<and>
         roots = (if Re (f self (hd (dom self))) = 0 then []
                  else successive_flips (f self)
                         (filter (\<lambda>x. Re (f self x) \<noteq> 0) (dom self)))"
      unfolding d list.sel by blast
  qed
  have init: "Function_init (linspace (- 1) 1 101) (Callable complex_of_real) =
      Inr \<lparr>dom = linspace (- 1) 1 101, f = complex_of_real\<rparr>"
    by (simp add: Function_init_def linspace_evenly_spaced)
  have zeros: "Function_find_zeros \<lparr>dom = linspace (- 1) 1 101, f = complex_of_real\<rparr> =
      Inr [1 / 50]"
    using find_zeros_loop_linspace by (simp add: Function_find_zeros_def index0_linspace)
  from general init zeros show ?thesis by blast
qed

lemma find_zeros_scan_example:
  "[- 1, 0, 1 :: real] \<noteq> [] \<and>
   (\<exists>roots. Function_find_zeros \<lparr>dom = [- 1, 0, 1], f = complex_of_real\<rparr> = Inr roots \<and>
      subseq roots [- 1, 0, 1] \<and>
      alternating (- 1) (map (\<lambda>x. Re (complex_of_real x)) roots) \<and>
      roots = [1])"
  using find_zeros_scan_characterisation [of "\<lparr>dom = [- 1, 0, 1], f = complex_of_real\<rparr>"]
  by simp

subsection \<open>Operators and reconstruction\<close>

lemma map2_same: "map2 h (map p xs) (map q xs) = map (\<lambda>x. h (p x) (q x)) xs"
  by (induction xs) simp_all

lemma evenly_spaced_length:
  "is_evenly_spaced_domain domain = Inr b \<Longrightarrow> 2 \<le> length domain"
  by (cases domain rule: numpy_diff.cases) (simp_all add: is_evenly_spaced_domain_def)

lemma binary_operator_on_Function:
  assumes "is_evenly_spaced_domain (dom F) = Inr True"
  shows "\<exists>H. binary_operator opr F (OFunction G) = Inr (Some H) \<and> dom H = dom F \<and>
           Function_eval H = map (\<lambda>x. opr (f F x) (f G x)) (dom F)"
  using assms by (simp add: binary_operator_def Function_init_def Function_eval_def)

lemma binary_operator_on_number:
  assumes "is_evenly_spaced_domain (dom F) = Inr True" and "is_number other"
  shows "\<exists>H. binary_operator opr F other = Inr (Some H) \<and> dom H = dom F \<and>
           Function_eval H = map (\<lambda>x. opr (f F x) (number_value other)) (dom F)"
  using assms
  by (cases other) (simp_all add: binary_operator_def Function_init_def Function_eval_def)

lemma eval_map2:
  "dom G = dom F \<Longrightarrow>
     map (\<lambda>x. opr (f F x) (f G x)) (dom F) = map2 opr (Function_eval F) (Function_eval G)"
  by (simp add: Function_eval_def map2_same)

lemma combine_simps:
  "cf_add (cf_of_float (Fin a)) (cf_mul imag_unit (cf_of_float (Fin b))) = Cf (Fin a) (Fin b)"
  "cf_add (cf_of_float r) (cf_mul imag_unit (cf_of_float NaN)) = Cf NaN NaN"
  "cf_add (cf_of_float NaN) (cf_mul imag_unit (cf_of_float (Fin b))) = Cf NaN (Fin b)"
  by (simp_all add: cf_of_float_def imag_unit_def)

lemma to_function_Inr:
  assumes "x_space \<noteq> []" and "to_function g fit x_space feval interpolation to_zero = Inr rel"
  shows "\<exists>ys p q.
     (case feval of FCallable h \<Rightarrow> sequence (map h x_space) | FSamples ys' \<Rightarrow> Inr ys') = Inr ys \<and>
     fit (case interpolation of None \<Rightarrow> FUNCTION_INTERPOLATION_TYPE g | Some k \<Rightarrow> k)
       x_space (map real_part ys) = Inr p \<and>
     fit (case interpolation of None \<Rightarrow> FUNCTION_INTERPOLATION_TYPE g | Some k \<Rightarrow> k)
       x_space (map imag_part ys) = Inr q \<and>
     rel = (\<lambda>x. if x < Min (set x_space) \<or> Max (set x_space) < x
                then Inr (if to_zero then Cf (Fin 0) (Fin 0) else Cf NaN NaN)
                else Inr (cf_add (cf_of_float (p x)) (cf_mul imag_unit (cf_of_float (q x)))))"
  using assms
  by (auto simp add: to_function_def Let_def interp1d_init_def interp1d_call_def combine_simps
      split: sum.splits if_splits)

section \<open>The claims\<close>

subsection \<open>The guard of \<open>Integral.integrate\<close>\<close>

text \<open>
  C1. The claim: \<open>Integral.integrate(fun, x0, x1)\<close> returns the trapezoidal sum of the
  samples of \<open>fun\<close>, over the full domain when both bounds are \<open>None\<close> and over the
  remeshed restriction to \<open>[x0, x1]\<close> otherwise. The code never gets that far: the guard
  \<open>any(numpy.array([x0, x1]) is None)\<close> applies the builtin \<open>any\<close> to a \<open>bool\<close>, which is
  not iterable, so every call raises TypeError before a sample is read, whatever the
  Function and the bounds.
\<close>

theorem Integral_integrate_raises:
  "Integral_integrate g fit vslice fun x0 x1 = Inl TypeError"
  by (simp add: Integral_integrate_def)

subsection \<open>The domain check on short domains\<close>

text \<open>
  C2. The claim: on a domain of length 0 or 1 the equidistant-spacing check evaluates and
  returns true, with no out-of-bounds access. The code does not: \<open>numpy.diff\<close> of such a
  domain is empty and \<open>diff[0]\<close> raises IndexError, so the check returns no boolean at all.
\<close>

theorem is_evenly_spaced_domain_short_raises:
  "is_evenly_spaced_domain [] = Inl IndexError \<and> is_evenly_spaced_domain [x] = Inl IndexError"
  by (simp add: is_evenly_spaced_domain_def)

subsection \<open>A grid as the domain of a ParametrizedFunction\<close>

text \<open>
  C3. The claim: a domain argument that is not callable is wrapped as a constant factory
  that returns the given grid. The code wraps it as \<open>lambda x: domain\<close> and assigns the
  lambda to the variable \<open>domain\<close> itself, so the factory returns the lambda and not the
  grid; \<open>Function.__init__\<close> then receives a function object as its domain and
  \<open>numpy.diff\<close> raises ValueError. With a grid as domain and matching parameter lists the
  constructor always raises; it raises the parameter-count error when the lists differ.
\<close>

theorem ParametrizedFunction_init_grid_fails:
  "ParametrizedFunction_init (Grid xs) (RelationFactory ff) names ps =
     (if length names = length ps then Inl ValueError else Inl ParamCountMismatch)"
  by (simp add: ParametrizedFunction_init_def Function_init_obj_def)

subsection \<open>Construction on a domain that fails the check\<close>

text \<open>
  C4. When the equidistant-spacing check returns false for a domain, as it does for
  \<open>[0, 1, 3]\<close>, the constructor raises the non-uniform-domain error whatever the second
  argument is, callable or not; it never returns a Function.
\<close>

theorem Function_init_rejects_uneven:
  "is_evenly_spaced_domain domain = Inr False \<Longrightarrow>
     Function_init domain function_callable = Inl NotEquidistant"
  by (simp add: Function_init_def)

theorem Function_init_rejects_uneven_witness:
  "is_evenly_spaced_domain [0, 1, 3] = Inr False \<and>
   Function_init [0, 1, 3] (Samples [1, 2, 3 :: complex]) = Inl NotEquidistant \<and>
   Function_init [0, 1, 3] (Callable (\<lambda>x. complex_of_real x)) = Inl NotEquidistant"
proof -
  have h: "is_evenly_spaced_domain [0, 1, 3] = Inr False"
    by (simp add: is_evenly_spaced_domain_def isclose_def atol_def rtol_def)
  show ?thesis
    using h Function_init_rejects_uneven [OF h, of "Samples [1, 2, 3 :: complex]"]
      Function_init_rejects_uneven [OF h, of "Callable (\<lambda>x. complex_of_real x)"]
    by simp
qed

subsection \<open>The zero-crossing scan\<close>

text \<open>
  C5. The claim: \<open>find_zeros\<close> scans the real parts of successive samples for changes of
  sign and returns exactly the domain points after each sign flip. The code compares every
  sample with a reference sample \<open>f0\<close>, which starts as the first sample and is replaced
  only when a flip is found. When the first sample has real part zero every product is
  zero, no flip is ever found and \<open>f0\<close> stays zero: on the domain \<open>[0, 1, 2]\<close> with the
  relation \<open>lambda x: x * (1.5 - x)\<close>, which the constructor accepts, the samples are
  \<open>0, 1/2, -1\<close>, the sign flips between the points 1 and 2, the scan of successive samples
  gives \<open>[2]\<close>, and \<open>find_zeros\<close> returns the empty list.
\<close>

theorem find_zeros_misses_flip_after_zero:
  "Function_init [0, 1, 2] (Callable (\<lambda>x. complex_of_real (x * (3 / 2 - x)))) =
     Inr \<lparr>dom = [0, 1, 2], f = \<lambda>x. complex_of_real (x * (3 / 2 - x))\<rparr> \<and>
   map (\<lambda>x. Re (complex_of_real (x * (3 / 2 - x)))) [0, 1, 2] = [0, 1 / 2, - 1] \<and>
   successive_flips (\<lambda>x. complex_of_real (x * (3 / 2 - x))) [0, 1, 2] = [2] \<and>
   Function_find_zeros \<lparr>dom = [0, 1, 2], f = \<lambda>x. complex_of_real (x * (3 / 2 - x))\<rparr> = Inr []"
  by (simp add: Function_init_def is_evenly_spaced_domain_def isclose_zero
      Function_find_zeros_def)

subsection \<open>Pointwise arithmetic of the operators\<close>

text \<open>
  C6. Let the domain of the receiver \<open>F\<close> pass the spacing check (it has then at least two
  points). For every Function \<open>G\<close>, on whatever domain, each of \<open>F + G\<close>, \<open>F - G\<close>,
  \<open>F * G\<close>, \<open>F / G\<close> and \<open>F ** G\<close> returns a new Function whose domain is the domain of
  \<open>F\<close>, and whose evaluation applies the operation pointwise to the two relations over that
  domain (for \<open>/\<close> when \<open>G\<close> is nonzero there). The same holds for a number as right
  operand. When \<open>G\<close> is on the domain of \<open>F\<close>, that evaluation is the elementwise
  combination of the evaluations of \<open>F\<close> and \<open>G\<close>. Numbers are exact here, so the
  equalities are exact.
\<close>

theorem binary_operators_pointwise:
  assumes "is_evenly_spaced_domain (dom F) = Inr True"
  shows "2 \<le> length (dom F) \<and>
    (\<exists>H. Function_add F (OFunction G) = Inr (Some H) \<and> dom H = dom F \<and>
          Function_eval H = map (\<lambda>x. f F x + f G x) (dom F)) \<and>
    (\<exists>H. Function_sub F (OFunction G) = Inr (Some H) \<and> dom H = dom F \<and>
          Function_eval H = map (\<lambda>x. f F x - f G x) (dom F)) \<and>
    (\<exists>H. Function_mul F (OFunction G) = Inr (Some H) \<and> dom H = dom F \<and>
          Function_eval H = map (\<lambda>x. f F x * f G x) (dom F)) \<and>
    (\<exists>H. Function_truediv F (OFunction G) = Inr (Some H) \<and> dom H = dom F \<and>
          ((\<forall>x\<in>set (dom F). f G x \<noteq> 0) \<longrightarrow>
             Function_eval H = map (\<lambda>x. f F x / f G x) (dom F))) \<and>
    (\<exists>H. Function_pow pw F (OFunction G) = Inr (Some H) \<and> dom H = dom F \<and>
          Function_eval H = map (\<lambda>x. pw (f F x) (f G x)) (dom F)) \<and>
    (is_number other \<longrightarrow>
       (\<exists>H. Function_add F other = Inr (Some H) \<and> dom H = dom F \<and>
             Function_eval H = map (\<lambda>x. f F x + number_value other) (dom F)) \<and>
       (\<exists>H. Function_sub F other = Inr (Some H) \<and> dom H = dom F \<and>
             Function_eval H = map (\<lambda>x. f F x - number_value other) (dom F)) \<and>
       (\<exists>H. Function_mul F other = Inr (Some H) \<and> dom H = dom F \<and>
             Function_eval H = map (\<lambda>x. f F x * number_value other) (dom F)) \<and>
       (\<exists>H. Function_truediv F other = Inr (Some H) \<and> dom H = dom F \<and>
             (number_value other \<noteq> 0 \<longrightarrow>
                Function_eval H = map (\<lambda>x. f F x / number_value other) (dom F))) \<and>
       (\<exists>H. Function_pow pw F other = Inr (Some H) \<and> dom H = dom F \<and>
             Function_eval H = map (\<lambda>x. pw (f F x) (number_value other)) (dom F))) \<and>
    (dom G = dom F \<longrightarrow>
       map (\<lambda>x. f F x + f G x) (dom F) =
         map2 (\<lambda>a b. a + b) (Function_eval F) (Function_eval G) \<and>
       map (\<lambda>x. f F x - f G x) (dom F) =
         map2 (\<lambda>a b. a - b) (Function_eval F) (Function_eval G) \<and>
       map (\<lambda>x. f F x * f G x) (dom F) =
         map2 (\<lambda>a b. a * b) (Function_eval F) (Function_eval G) \<and>
       map (\<lambda>x. f F x / f G x) (dom F) =
         map2 (\<lambda>a b. a / b) (Function_eval F) (Function_eval G))"
proof -
  have len: "2 \<le> length (dom F)"
    by (rule evenly_spaced_length [OF assms])
  have fn: "\<exists>H. binary_operator opr F (OFunction G) = Inr (Some H) \<and> dom H = dom F \<and>
           Function_eval H = map (\<lambda>x. opr (f F x) (f G x)) (dom F)" for opr
    by (rule binary_operator_on_Function [OF assms])
  have num: "is_number other \<longrightarrow>
        (\<exists>H. binary_operator opr F other = Inr (Some H) \<and> dom H = dom F \<and>
           Function_eval H = map (\<lambda>x. opr (f F x) (number_value other)) (dom F))" for opr
    using binary_operator_on_number [OF assms] by blast
  have same: "dom G = dom F \<longrightarrow>
     map (\<lambda>x. opr (f F x) (f G x)) (dom F) = map2 opr (Function_eval F) (Function_eval G)"
    for opr
    using eval_map2 by blast
  show ?thesis
    unfolding Function_add_def Function_sub_def Function_mul_def Function_truediv_def
      Function_pow_def
    using len fn [of "\<lambda>a b. a + b"] fn [of "\<lambda>a b. a - b"] fn [of "\<lambda>a b. a * b"]
      fn [of "\<lambda>a b. a / b"] fn [of pw]
      num [of "\<lambda>a b. a + b"] num [of "\<lambda>a b. a - b"] num [of "\<lambda>a b. a * b"]
      num [of "\<lambda>a b. a / b"] num [of pw]
      same [of "\<lambda>a b. a + b"] same [of "\<lambda>a b. a - b"] same [of "\<lambda>a b. a * b"]
      same [of "\<lambda>a b. a / b"]
    by blast
qed

theorem binary_operators_pointwise_witness:
  "is_evenly_spaced_domain [0, 1, 2] = Inr True \<and>
   (\<exists>H. Function_add \<lparr>dom = [0, 1, 2], f = complex_of_real\<rparr>
           (OFunction \<lparr>dom = [0, 1, 2], f = \<lambda>x. complex_of_real x + 1\<rparr>) = Inr (Some H) \<and>
         dom H = [0, 1, 2] \<and> Function_eval H = [1, 3, 5]) \<and>
   map2 (\<lambda>a b. a + b) (Function_eval \<lparr>dom = [0, 1, 2], f = complex_of_real\<rparr>)
     (Function_eval \<lparr>dom = [0, 1, 2], f = \<lambda>x. complex_of_real x + 1\<rparr>) = [1, 3, 5] \<and>
   (\<exists>H. Function_truediv \<lparr>dom = [0, 1, 2], f = complex_of_real\<rparr>
           (OFunction \<lparr>dom = [0, 1, 2], f = \<lambda>x. complex_of_real x + 1\<rparr>) = Inr (Some H) \<and>
         dom H = [0, 1, 2] \<and> Function_eval H = [0, 1 / 2, 2 / 3]) \<and>
   (\<exists>H. Function_sub \<lparr>dom = [0, 1, 2], f = complex_of_real\<rparr>
           (OFunction \<lparr>dom = [5, 7, 9, 11], f = \<lambda>x. complex_of_real x + 1\<rparr>) = Inr (Some H) \<and>
         dom H = [0, 1, 2] \<and> Function_eval H = [- 1, - 1, - 1]) \<and>
   (\<exists>H. Function_mul \<lparr>dom = [0, 1, 2], f = complex_of_real\<rparr> (OInt 3) = Inr (Some H) \<and>
         dom H = [0, 1, 2] \<and> Function_eval H = [0, 3, 6]) \<and>
   (\<exists>H. Function_pow (\<lambda>a b. a ^ nat \<lfloor>Re b\<rfloor>) \<lparr>dom = [0, 1, 2], f = complex_of_real\<rparr>
           (OInt 2) = Inr (Some H) \<and>
         dom H = [0, 1, 2] \<and> Function_eval H = [0, 1, 4])"
proof -
  let ?F = "\<lparr>dom = [0, 1, 2], f = complex_of_real\<rparr>"
  let ?G = "\<lparr>dom = [0, 1, 2], f = \<lambda>x. complex_of_real x + 1\<rparr>"
  let ?G' = "\<lparr>dom = [5, 7, 9, 11], f = \<lambda>x. complex_of_real x + 1\<rparr>"
  let ?pw = "\<lambda>a b :: complex. a ^ nat \<lfloor>Re b\<rfloor>"
  have h: "is_evenly_spaced_domain (dom ?F) = Inr True"
    by (simp add: is_evenly_spaced_domain_def isclose_zero)
  have d: "dom ?G = dom ?F"
    by simp
  have nz: "\<forall>x\<in>set (dom ?F). f ?G x \<noteq> 0"
    by (simp add: complex_eq_iff)
  have n3: "is_number (OInt 3)" and n2: "is_number (OInt 2)"
    by simp_all
  have same: "(\<exists>H. Function_add ?F (OFunction ?G) = Inr (Some H) \<and>
         dom H = [0, 1, 2] \<and> Function_eval H = [1, 3, 5]) \<and>
     map2 (\<lambda>a b. a + b) (Function_eval ?F) (Function_eval ?G) = [1, 3, 5] \<and>
     (\<exists>H. Function_truediv ?F (OFunction ?G) = Inr (Some H) \<and>
         dom H = [0, 1, 2] \<and> Function_eval H = [0, 1 / 2, 2 / 3]) \<and>
     (\<exists>H. Function_mul ?F (OInt 3) = Inr (Some H) \<and>
         dom H = [0, 1, 2] \<and> Function_eval H = [0, 3, 6])"
    using d nz n3 binary_operators_pointwise [OF h, of ?G ?pw "OInt 3"]
    by (simp add: Function_eval_def)
  have other: "\<exists>H. Function_sub ?F (OFunction ?G') = Inr (Some H) \<and>
         dom H = [0, 1, 2] \<and> Function_eval H = [- 1, - 1, - 1]"
    using binary_operators_pointwise [OF h, of ?G' ?pw "OInt 3"]
    by simp
  have pow: "\<exists>H. Function_pow ?pw ?F (OInt 2) = Inr (Some H) \<and>
         dom H = [0, 1, 2] \<and> Function_eval H = [0, 1, 4]"
    using n2 binary_operators_pointwise [OF h, of ?G ?pw "OInt 2"]
    by simp
  from h same other pow show ?thesis by simp
qed

subsection \<open>The boundary policy of a reconstructed relation\<close>

text \<open>
  C7. For a relation that \<open>to_function\<close> returns over a non-empty domain: at a point below
  the least or above the greatest point of the domain it returns \<open>0+0j\<close> when \<open>to_zero\<close>
  is true and not-a-number (in both parts) when it is false; at every point it returns a
  value and raises no error; and inside the span its value is \<open>real(x) + 1j * imag(x)\<close>
  for the interpolants fitted to the real and to the imaginary parts of the samples.
\<close>

theorem to_function_boundary_policy:
  assumes "x_space \<noteq> []" and "to_function g fit x_space feval interpolation to_zero = Inr rel"
  shows "(x < Min (set x_space) \<or> Max (set x_space) < x \<longrightarrow>
            rel x = Inr (if to_zero then Cf (Fin 0) (Fin 0) else Cf NaN NaN)) \<and>
         (\<exists>v. rel x = Inr v) \<and>
         (\<exists>ys p q.
            (case feval of FCallable h \<Rightarrow> sequence (map h x_space) | FSamples ys' \<Rightarrow> Inr ys') = Inr ys \<and>
            fit (case interpolation of None \<Rightarrow> FUNCTION_INTERPOLATION_TYPE g | Some k \<Rightarrow> k)
              x_space (map real_part ys) = Inr p \<and>
            fit (case interpolation of None \<Rightarrow> FUNCTION_INTERPOLATION_TYPE g | Some k \<Rightarrow> k)
              x_space (map imag_part ys) = Inr q \<and>
            (Min (set x_space) \<le> x \<and> x \<le> Max (set x_space) \<longrightarrow>
               rel x = Inr (cf_add (cf_of_float (p x)) (cf_mul imag_unit (cf_of_float (q x))))))"
proof -
  from to_function_Inr [OF assms] obtain ys p q where
    s: "(case feval of FCallable h \<Rightarrow> sequence (map h x_space) | FSamples ys' \<Rightarrow> Inr ys') = Inr ys"
    and p: "fit (case interpolation of None \<Rightarrow> FUNCTION_INTERPOLATION_TYPE g | Some k \<Rightarrow> k)
       x_space (map real_part ys) = Inr p"
    and q: "fit (case interpolation of None \<Rightarrow> FUNCTION_INTERPOLATION_TYPE g | Some k \<Rightarrow> k)
       x_space (map imag_part ys) = Inr q"
    and r: "rel = (\<lambda>x. if x < Min (set x_space) \<or> Max (set x_space) < x
                then Inr (if to_zero then Cf (Fin 0) (Fin 0) else Cf NaN NaN)
                else Inr (cf_add (cf_of_float (p x)) (cf_mul imag_unit (cf_of_float (q x)))))"
    by blast
  have 1: "x < Min (set x_space) \<or> Max (set x_space) < x \<longrightarrow>
            rel x = Inr (if to_zero then Cf (Fin 0) (Fin 0) else Cf NaN NaN)"
    by (simp add: r)
  have 2: "\<exists>v. rel x = Inr v"
    by (simp add: r)
  have 3: "Min (set x_space) \<le> x \<and> x \<le> Max (set x_space) \<longrightarrow>
               rel x = Inr (cf_add (cf_of_float (p x)) (cf_mul imag_unit (cf_of_float (q x))))"
    by (auto simp add: r)
  from 1 2 3 s p q show ?thesis by blast
qed

theorem to_function_boundary_policy_witness:
  "[0, 1, 2 :: real] \<noteq> [] \<and>
   (\<exists>rel. to_function initial_globals sample_fit [0, 1, 2]
            (FSamples [Cf (Fin 1) (Fin 0), Cf (Fin 2) (Fin 1), Cf (Fin 3) (Fin 0)]) None False =
            Inr rel \<and>
          rel 5 = Inr (Cf NaN NaN) \<and> rel (- 1) = Inr (Cf NaN NaN) \<and>
          rel (1 / 2) = Inr (Cf (Fin (3 / 2)) (Fin (1 / 2)))) \<and>
   (\<exists>rel. to_function initial_globals sample_fit [0, 1, 2]
            (FSamples [Cf (Fin 1) (Fin 0), Cf (Fin 2) (Fin 1), Cf (Fin 3) (Fin 0)]) None True =
            Inr rel \<and>
          rel 5 = Inr (Cf (Fin 0) (Fin 0)) \<and> rel (- 1) = Inr (Cf (Fin 0) (Fin 0)))"
proof -
  have ne: "[0, 1, 2 :: real] \<noteq> []" by simp
  obtain rel where rel: "to_function initial_globals sample_fit [0, 1, 2]
            (FSamples [Cf (Fin 1) (Fin 0), Cf (Fin 2) (Fin 1), Cf (Fin 3) (Fin 0)]) None False =
            Inr rel"
    by (simp add: to_function_def Let_def sample_fit_def interp1d_init_def initial_globals_def)
  obtain rel0 where rel0: "to_function initial_globals sample_fit [0, 1, 2]
            (FSamples [Cf (Fin 1) (Fin 0), Cf (Fin 2) (Fin 1), Cf (Fin 3) (Fin 0)]) None True =
            Inr rel0"
    by (simp add: to_function_def Let_def sample_fit_def interp1d_init_def initial_globals_def)
  have a: "rel 5 = Inr (Cf NaN NaN)"
    using to_function_boundary_policy [OF ne rel, of 5] by simp
  have b: "rel (- 1) = Inr (Cf NaN NaN)"
    using to_function_boundary_policy [OF ne rel, of "- 1"] by simp
  have c: "rel (1 / 2) = Inr (Cf (Fin (3 / 2)) (Fin (1 / 2)))"
    using to_function_boundary_policy [OF ne rel, of "1 / 2"]
    by (auto simp add: sample_fit_def initial_globals_def combine_simps)
  have d: "rel0 5 = Inr (Cf (Fin 0) (Fin 0))"
    using to_function_boundary_policy [OF ne rel0, of 5] by simp
  have e: "rel0 (- 1) = Inr (Cf (Fin 0) (Fin 0))"
    using to_function_boundary_policy [OF ne rel0, of "- 1"] by simp
  from ne rel rel0 a b c d e show ?thesis by blast
qed

subsection \<open>The process-wide interpolation kind\<close>

text \<open>
  C8. The global interpolation kind starts as \<open>'linear'\<close>; \<open>set_interpolation_type(k)\<close>
  returns the kind stored before and stores \<open>k\<close>; \<open>to_function\<close> without an explicit kind
  is \<open>to_function\<close> with the kind the global holds at the time of that call; and
  \<open>reinterpolate\<close> on a Function built earlier, run after the setter, reconstructs with
  the new kind. On the Function with domain \<open>[0, 1, 2]\<close> and the identity as relation,
  reinterpolation gives \<open>1/2\<close> at \<open>1/2\<close> under the initial global and \<open>0\<close> after the global
  is set to \<open>'previous'\<close>.
\<close>

theorem interpolation_type_global:
  "FUNCTION_INTERPOLATION_TYPE initial_globals = ''linear'' \<and>
   fst (set_interpolation_type k g) = FUNCTION_INTERPOLATION_TYPE g \<and>
   FUNCTION_INTERPOLATION_TYPE (snd (set_interpolation_type k g)) = k \<and>
   to_function g fit xs fe None tz =
     to_function g' fit xs fe (Some (FUNCTION_INTERPOLATION_TYPE g)) tz \<and>
   Function_reinterpolate (snd (set_interpolation_type k g)) fit F =
     (case to_function g fit (dom F) (FCallable (f F)) (Some k) True of
        Inl e \<Rightarrow> Inl e
      | Inr r \<Rightarrow> Inr \<lparr>dom = dom F, f = r\<rparr>) \<and>
   reinterpolated_at initial_globals sample_fit
     \<lparr>dom = [0, 1, 2], f = (\<lambda>x. Inr (Cf (Fin x) (Fin 0)))\<rparr> (1 / 2) =
     Inr (Cf (Fin (1 / 2)) (Fin 0)) \<and>
   reinterpolated_at (snd (set_interpolation_type ''previous'' initial_globals)) sample_fit
     \<lparr>dom = [0, 1, 2], f = (\<lambda>x. Inr (Cf (Fin x) (Fin 0)))\<rparr> (1 / 2) =
     Inr (Cf (Fin 0) (Fin 0))"
proof -
  have 1: "FUNCTION_INTERPOLATION_TYPE initial_globals = ''linear''"
    by (simp add: initial_globals_def)
  have 2: "fst (set_interpolation_type k g) = FUNCTION_INTERPOLATION_TYPE g"
    by (simp add: set_interpolation_type_def)
  have 3: "FUNCTION_INTERPOLATION_TYPE (snd (set_interpolation_type k g)) = k"
    by (simp add: set_interpolation_type_def)
  have 4: "to_function g fit xs fe None tz =
     to_function g' fit xs fe (Some (FUNCTION_INTERPOLATION_TYPE g)) tz"
    by (simp add: to_function_def)
  have 5: "Function_reinterpolate (snd (set_interpolation_type k g)) fit F =
     (case to_function g fit (dom F) (FCallable (f F)) (Some k) True of
        Inl e \<Rightarrow> Inl e
      | Inr r \<Rightarrow> Inr \<lparr>dom = dom F, f = r\<rparr>)"
    by (simp add: Function_reinterpolate_def to_function_def set_interpolation_type_def)
  have 6: "reinterpolated_at initial_globals sample_fit
     \<lparr>dom = [0, 1, 2], f = (\<lambda>x. Inr (Cf (Fin x) (Fin 0)))\<rparr> (1 / 2) =
     Inr (Cf (Fin (1 / 2)) (Fin 0))"
    by (simp add: reinterpolated_at_def Function_reinterpolate_def to_function_def
        initial_globals_def sample_fit_def interp1d_init_def interp1d_call_def
        cf_of_float_def imag_unit_def Let_def)
  have 7: "reinterpolated_at (snd (set_interpolation_type ''previous'' initial_globals)) sample_fit
     \<lparr>dom = [0, 1, 2], f = (\<lambda>x. Inr (Cf (Fin x) (Fin 0)))\<rparr> (1 / 2) =
     Inr (Cf (Fin 0) (Fin 0))"
    by (simp add: reinterpolated_at_def Function_reinterpolate_def to_function_def
        initial_globals_def set_interpolation_type_def sample_fit_def interp1d_init_def
        interp1d_call_def cf_of_float_def imag_unit_def Let_def)
  from 1 2 3 4 5 6 7 show ?thesis by blast
qed

subsection \<open>Reconstruction over an empty domain\<close>

text \<open>
  C9. Over a domain of length 0, \<open>to_function\<close> returns the relation that is 0 at every
  input, whatever \<open>feval\<close>, the kind and \<open>to_zero\<close> are, and whatever the interpolation
  backend would do: no interpolant is fitted.
\<close>

theorem to_function_empty_domain:
  "to_function g fit [] feval interpolation to_zero = Inr (\<lambda>x. Inr (Cf (Fin 0) (Fin 0)))"
  by (cases feval) (simp_all add: to_function_def)

subsection \<open>Operands that are neither a Function nor a number\<close>

text \<open>
  C10. When the right operand is neither a Function nor a number that \<open>_is_number\<close>
  recognises (a string, a list, \<open>None\<close>), each of \<open>+\<close>, \<open>-\<close>, \<open>*\<close>, \<open>/\<close> and \<open>**\<close>
  returns \<open>None\<close>: no exception and no Function.
\<close>

theorem operators_return_None:
  "\<not> is_Function other \<Longrightarrow> \<not> is_number other \<Longrightarrow>
     Function_add self other = Inr None \<and> Function_sub self other = Inr None \<and>
     Function_mul self other = Inr None \<and> Function_truediv self other = Inr None \<and>
     Function_pow pw self other = Inr None"
  by (cases other)
    (simp_all add: Function_add_def Function_sub_def Function_mul_def Function_truediv_def
      Function_pow_def binary_operator_def)

theorem operators_return_None_witness:
  "\<not> is_Function (OStr ''abc'') \<and> \<not> is_number (OStr ''abc'') \<and>
   Function_add \<lparr>dom = [0, 1, 2], f = complex_of_real\<rparr> (OStr ''abc'') = Inr None \<and>
   Function_sub \<lparr>dom = [0, 1, 2], f = complex_of_real\<rparr> (OStr ''abc'') = Inr None \<and>
   Function_mul \<lparr>dom = [0, 1, 2], f = complex_of_real\<rparr> (OStr ''abc'') = Inr None \<and>
   Function_truediv \<lparr>dom = [0, 1, 2], f = complex_of_real\<rparr> (OStr ''abc'') = Inr None \<and>
   Function_pow (\<lambda>a b. a * b) \<lparr>dom = [0, 1, 2], f = complex_of_real\<rparr> (OList [1, 2]) = Inr None"
proof -
  have s1: "\<not> is_Function (OStr ''abc'')" and s2: "\<not> is_number (OStr ''abc'')" by simp_all
  have l1: "\<not> is_Function (OList [1, 2])" and l2: "\<not> is_number (OList [1, 2])" by simp_all
  show ?thesis
    using s1 s2
      operators_return_None [OF s1 s2, of "\<lparr>dom = [0, 1, 2], f = complex_of_real\<rparr>" "\<lambda>a b. a * b"]
      operators_return_None [OF l1 l2, of "\<lparr>dom = [0, 1, 2], f = complex_of_real\<rparr>" "\<lambda>a b. a * b"]
    by simp
qed

end
